theory Spec2Isabelle
  imports Main "HOL-Library.Word" "HOL-Library.Signed_Division"
begin

section \<open>The replication timestamp of utils.hpp\<close>

text \<open>
  \<^verbatim>\<open>class repli_timestamp_t { public: uint32_t time; ... };\<close>
  The class has the single data member \<open>time\<close>, an unsigned 32-bit counter.
\<close>

record repli_timestamp_t =
  time :: "32 word"

text \<open>
  The six comparison operators, each written in the source as the same comparison of
  the two \<open>time\<close> members (utils.hpp, lines 22 to 27). The comparison of two
  \<open>uint32_t\<close> values is the unsigned one, as the order on words is.
\<close>

definition op_eq :: "repli_timestamp_t \<Rightarrow> repli_timestamp_t \<Rightarrow> bool" where
  "op_eq x t = (time x = time t)"

definition op_ne :: "repli_timestamp_t \<Rightarrow> repli_timestamp_t \<Rightarrow> bool" where
  "op_ne x t = (time x \<noteq> time t)"

definition op_lt :: "repli_timestamp_t \<Rightarrow> repli_timestamp_t \<Rightarrow> bool" where
  "op_lt x t = (time x < time t)"

definition op_gt :: "repli_timestamp_t \<Rightarrow> repli_timestamp_t \<Rightarrow> bool" where
  "op_gt x t = (time x > time t)"

definition op_le :: "repli_timestamp_t \<Rightarrow> repli_timestamp_t \<Rightarrow> bool" where
  "op_le x t = (time x \<le> time t)"

definition op_ge :: "repli_timestamp_t \<Rightarrow> repli_timestamp_t \<Rightarrow> bool" where
  "op_ge x t = (time x \<ge> time t)"

text \<open>
  \<^verbatim>\<open>repli_timestamp_t next() const { repli_timestamp_t t; t.time = time + 1; return t; }\<close>
  The sum is stored into a \<open>uint32_t\<close>, so it is the sum modulo \<open>2 ^ 32\<close>: the
  addition of 32-bit words. (\<open>next\<close> is a keyword of Isar, hence the longer name.)
\<close>

definition next_timestamp :: "repli_timestamp_t \<Rightarrow> repli_timestamp_t" where
  "next_timestamp x = \<lparr>time = time x + 1\<rparr>"

text \<open>
  Modelled from the spec: the body of \<open>repli_max\<close>. utils.hpp only declares it,
  \<^verbatim>\<open>// Like std::max, except it's technically not associative.
  repli_timestamp_t repli_max(repli_timestamp_t x, repli_timestamp_t y);\<close>
  (lines 65 and 66). The spec describes it as the operation that "returns the
  numerically greater of x, y". The model is \<open>std::max\<close> written with the class's own
  \<open>operator<\<close>: the second argument when the first is smaller, the first otherwise.
\<close>

definition repli_max :: "repli_timestamp_t \<Rightarrow> repli_timestamp_t \<Rightarrow> repli_timestamp_t" where
  "repli_max x y = (if op_lt x y then y else x)"

section \<open>The interruption exception\<close>

text \<open>
  \<^verbatim>\<open>class interrupted_exc_t : public std::exception {
  public: const char *what() const throw () { return "interrupted"; } };\<close>
  The class declares no data member, so an instance holds nothing: the type has one
  value. \<open>what\<close> returns the string literal.
\<close>

datatype interrupted_exc_t = Interrupted_exc

definition what :: "interrupted_exc_t \<Rightarrow> string" where
  "what e = ''interrupted''"

section \<open>Thread affinity\<close>

text \<open>
  Thread ids are \<open>int\<close> in the source (\<^verbatim>\<open>int home_thread() const\<close>,
  \<^verbatim>\<open>explicit on_thread_t(int thread)\<close>, \<^verbatim>\<open>#define INVALID_THREAD (-1)\<close>). They are
  only stored and compared, never computed with.
\<close>

type_synonym thread_id = int

text \<open>
  \<^verbatim>\<open>class home_thread_mixin_t { ... protected: int real_home_thread; ... };\<close>
\<close>

record home_thread_mixin_t =
  real_home_thread :: thread_id

text \<open>\<^verbatim>\<open>int home_thread() const { return real_home_thread; }\<close>\<close>

definition home_thread :: "'a home_thread_mixin_t_scheme \<Rightarrow> thread_id" where
  "home_thread obj = real_home_thread obj"

text \<open>
  Modelled from the spec: the thread registry, which utils.hpp does not contain. The
  spec gives it the interface \<open>current_thread() -> ThreadId\<close> and
  \<open>request_switch(target) -> Result<(), RuntimeUnavailable>\<close>, which "resumes
  execution with the caller now running on target on success" and fails when "the
  registry cannot satisfy the request (e.g., the pool is shutting down)". The state of
  the registry, as one task sees it, is the thread the task runs on and whether the
  pool is shutting down.
\<close>

datatype error = RuntimeUnavailable

record thread_registry =
  current_thread :: thread_id
  shutting_down :: bool

definition request_switch :: "thread_id \<Rightarrow> thread_registry \<Rightarrow> error + thread_registry" where
  "request_switch target_thread r =
     (if shutting_down r then Inl RuntimeUnavailable
      else Inr (r\<lparr>current_thread := target_thread\<rparr>))"

text \<open>
  \<^verbatim>\<open>#ifndef NDEBUG
      void assert_thread() const;
  #else
      void assert_thread() const { }
  #endif\<close>
  A call either returns, leaving the registry as it found it, or ends the process.
  With \<open>NDEBUG\<close> defined the body is empty (line 185).
\<close>

datatype fault = Affinity_violation

definition assert_thread_ndebug ::
  "'a home_thread_mixin_t_scheme \<Rightarrow> thread_registry \<Rightarrow> fault + thread_registry" where
  "assert_thread_ndebug obj r = Inr r"

text \<open>
  Modelled from the spec: the body of \<open>assert_thread\<close> without \<open>NDEBUG\<close>, which the
  header only declares (line 183). The spec: it "compares the Thread Registry's current
  thread against \<open>home_thread()\<close>", and is "a synchronous, non-suspending check that
  terminates the process with a descriptive fault if they differ".
\<close>

definition assert_thread_debug ::
  "'a home_thread_mixin_t_scheme \<Rightarrow> thread_registry \<Rightarrow> fault + thread_registry" where
  "assert_thread_debug obj r =
     (if current_thread r = home_thread obj then Inr r else Inl Affinity_violation)"

text \<open>The two builds: the preprocessor picks one of the two declarations.\<close>

datatype build = Diagnostics | NDEBUG

fun assert_thread ::
  "build \<Rightarrow> 'a home_thread_mixin_t_scheme \<Rightarrow> thread_registry \<Rightarrow> fault + thread_registry" where
  "assert_thread Diagnostics obj r = assert_thread_debug obj r"
| "assert_thread NDEBUG obj r = assert_thread_ndebug obj r"

text \<open>
  \<^verbatim>\<open>class on_thread_t : public home_thread_mixin_t {
  public: explicit on_thread_t(int thread); ~on_thread_t(); };\<close>
  The spec gives the guard the fields \<open>origin\<close> and \<open>target\<close>. The origin is the
  \<open>real_home_thread\<close> inherited from the base class, whose default constructor
  "binds to whatever the Thread Registry reports as the current thread at construction
  time".
\<close>

record on_thread_t = home_thread_mixin_t +
  target :: thread_id

text \<open>
  Modelled from the spec: the body of the constructor \<open>on_thread_t(int thread)\<close>,
  which is only declared (line 215). It "records \<open>origin := current_thread()\<close>; if
  \<open>origin == target\<close>, the guard still completes but performs no actual migration.
  Otherwise it issues a migration request"; when the request fails, "acquisition fails
  with a RuntimeUnavailable error and the guard is considered never constructed".
\<close>

definition on_thread_t_ctor ::
  "thread_id \<Rightarrow> thread_registry \<Rightarrow> error + (on_thread_t \<times> thread_registry)" where
  "on_thread_t_ctor thread r =
     (let guard = \<lparr>real_home_thread = current_thread r, target = thread\<rparr>
      in if home_thread guard = target guard then Inr (guard, r)
         else (case request_switch (target guard) r of
                 Inl e \<Rightarrow> Inl e
               | Inr r' \<Rightarrow> Inr (guard, r')))"

text \<open>
  Modelled from the spec: the body of the destructor \<open>~on_thread_t()\<close>, which is only
  declared (line 216). It "issues a migration request back to \<open>origin\<close> (skipped if
  \<open>origin == target\<close>), suspending until resumed there". The result of the request
  is the result of the destruction.
\<close>

definition on_thread_t_dtor :: "on_thread_t \<Rightarrow> thread_registry \<Rightarrow> error + thread_registry" where
  "on_thread_t_dtor guard r =
     (if home_thread guard = target guard then Inr r
      else request_switch (home_thread guard) r)"

section \<open>Alignment arithmetic\<close>

text \<open>
  \<^verbatim>\<open>template <class T1, class T2>
  T1 ceil_aligned(T1 value, T2 alignment) {
      return value + alignment - (((value + alignment - 1) % alignment) + 1);
  }\<close>
  The template is instantiated at the integer types of C++, \<open>T1\<close> and \<open>T2\<close> each
  any of them. What the expression computes depends on the types of its operands: each
  operator promotes its operands, brings them to a common type, computes in that type,
  and the \<open>return\<close> converts the result to \<open>T1\<close>. The types are the standard signed
  and unsigned integer types, with the sizes of the two usual data models (\<open>int\<close> of
  32 bits, \<open>long\<close> of 32 or of 64 bits). \<open>uint32_t\<close> is \<open>UInt\<close>; \<open>uint64_t\<close> and
  \<open>size_t\<close> are \<open>ULong\<close> under \<open>LP64\<close>.
\<close>

datatype data_model = ILP32 | LP64

datatype int_type =
  SChar | UChar | SShort | UShort | SInt | UInt | SLong | ULong | SLongLong | ULongLong

fun is_signed :: "int_type \<Rightarrow> bool" where
  "is_signed SChar = True"
| "is_signed UChar = False"
| "is_signed SShort = True"
| "is_signed UShort = False"
| "is_signed SInt = True"
| "is_signed UInt = False"
| "is_signed SLong = True"
| "is_signed ULong = False"
| "is_signed SLongLong = True"
| "is_signed ULongLong = False"

text \<open>The conversion rank of a type, and the unsigned type that corresponds to a type.\<close>

fun rank :: "int_type \<Rightarrow> nat" where
  "rank SChar = 1"
| "rank UChar = 1"
| "rank SShort = 2"
| "rank UShort = 2"
| "rank SInt = 3"
| "rank UInt = 3"
| "rank SLong = 4"
| "rank ULong = 4"
| "rank SLongLong = 5"
| "rank ULongLong = 5"

fun to_unsigned :: "int_type \<Rightarrow> int_type" where
  "to_unsigned SChar = UChar"
| "to_unsigned SShort = UShort"
| "to_unsigned SInt = UInt"
| "to_unsigned SLong = ULong"
| "to_unsigned SLongLong = ULongLong"
| "to_unsigned T = T"

text \<open>The width of a type in bits; only \<open>long\<close> differs between the data models.\<close>

fun width :: "data_model \<Rightarrow> int_type \<Rightarrow> nat" where
  "width dm SChar = 8"
| "width dm UChar = 8"
| "width dm SShort = 16"
| "width dm UShort = 16"
| "width dm SInt = 32"
| "width dm UInt = 32"
| "width ILP32 SLong = 32"
| "width ILP32 ULong = 32"
| "width LP64 SLong = 64"
| "width LP64 ULong = 64"
| "width dm SLongLong = 64"
| "width dm ULongLong = 64"

definition min_value :: "data_model \<Rightarrow> int_type \<Rightarrow> int" where
  "min_value dm T = (if is_signed T then - (2 ^ (width dm T - 1)) else 0)"

definition max_value :: "data_model \<Rightarrow> int_type \<Rightarrow> int" where
  "max_value dm T = (if is_signed T then 2 ^ (width dm T - 1) - 1 else 2 ^ width dm T - 1)"

definition representable :: "data_model \<Rightarrow> int_type \<Rightarrow> int \<Rightarrow> bool" where
  "representable dm T x = (min_value dm T \<le> x \<and> x \<le> max_value dm T)"

text \<open>
  The conversion of a value to type \<open>T\<close>: the value modulo \<open>2 ^ width\<close>, taken in the
  range of \<open>T\<close>. (For a signed \<open>T\<close> and a value out of range this is what C++20
  requires and what the compilers did before it.) A value of the range is unchanged.
\<close>

definition convert :: "data_model \<Rightarrow> int_type \<Rightarrow> int \<Rightarrow> int" where
  "convert dm T x =
     (if is_signed T
      then (x + 2 ^ (width dm T - 1)) mod 2 ^ width dm T - 2 ^ (width dm T - 1)
      else x mod 2 ^ width dm T)"

text \<open>
  The integral promotion: a type of rank below \<open>int\<close> becomes \<open>int\<close> when \<open>int\<close> has
  all its values, \<open>unsigned int\<close> otherwise.
\<close>

definition promote :: "data_model \<Rightarrow> int_type \<Rightarrow> int_type" where
  "promote dm T =
     (if rank T < rank SInt
      then (if min_value dm SInt \<le> min_value dm T \<and> max_value dm T \<le> max_value dm SInt
            then SInt else UInt)
      else T)"

text \<open>
  The usual arithmetic conversions, on promoted types: the same type stays; of two
  signed or two unsigned types the one of greater rank; of a signed type \<open>S\<close> and an
  unsigned type \<open>U\<close>, \<open>U\<close> when its rank is at least that of \<open>S\<close>, else \<open>S\<close> when it
  has all the values of \<open>U\<close>, else the unsigned type that corresponds to \<open>S\<close>.
\<close>

definition common_type :: "data_model \<Rightarrow> int_type \<Rightarrow> int_type \<Rightarrow> int_type" where
  "common_type dm A B =
     (if A = B then A
      else if is_signed A = is_signed B then (if rank A < rank B then B else A)
      else (let S = (if is_signed A then A else B); U = (if is_signed A then B else A)
            in if rank S \<le> rank U then U
               else if min_value dm S \<le> min_value dm U \<and> max_value dm U \<le> max_value dm S then S
               else to_unsigned S))"

definition arith_type :: "data_model \<Rightarrow> int_type \<Rightarrow> int_type \<Rightarrow> int_type" where
  "arith_type dm A B = common_type dm (promote dm A) (promote dm B)"

text \<open>
  The result of \<open>+\<close> or \<open>-\<close> in type \<open>T\<close>, from the exact result \<open>x\<close>: an unsigned
  type reduces it modulo \<open>2 ^ width\<close>; in a signed type a result out of range is
  undefined behaviour, here \<open>None\<close>.
\<close>

definition arith_result :: "data_model \<Rightarrow> int_type \<Rightarrow> int \<Rightarrow> int option" where
  "arith_result dm T x =
     (if is_signed T then (if representable dm T x then Some x else None)
      else Some (x mod 2 ^ width dm T))"

text \<open>
  An operand is a value with its type. \<open>+\<close> and \<open>-\<close> convert both operands to their
  common type and compute there.
\<close>

type_synonym typed_value = "int_type \<times> int"

fun c_add :: "data_model \<Rightarrow> typed_value \<Rightarrow> typed_value \<Rightarrow> typed_value option" where
  "c_add dm (A, a) (B, b) =
     (let C = arith_type dm A B
      in map_option (Pair C) (arith_result dm C (convert dm C a + convert dm C b)))"

fun c_sub :: "data_model \<Rightarrow> typed_value \<Rightarrow> typed_value \<Rightarrow> typed_value option" where
  "c_sub dm (A, a) (B, b) =
     (let C = arith_type dm A B
      in map_option (Pair C) (arith_result dm C (convert dm C a - convert dm C b)))"

text \<open>
  The operator \<open>%\<close>: the remainder of the division that truncates towards zero
  (\<open>smod\<close> on \<open>int\<close>), in the common type. It is undefined for the divisor 0, and where
  the quotient is not representable (the least value of a signed type divided by \<open>-1\<close>).
\<close>

fun c_rem :: "data_model \<Rightarrow> typed_value \<Rightarrow> typed_value \<Rightarrow> typed_value option" where
  "c_rem dm (A, a) (B, b) =
     (let C = arith_type dm A B; x = convert dm C a; y = convert dm C b
      in if y = 0 then None
         else if is_signed C \<and> x = min_value dm C \<and> y = - 1 then None
         else Some (C, x smod y))"

text \<open>
  The expression of \<open>ceil_aligned\<close>, operator by operator:
  \<open>s = value + alignment\<close>, \<open>t = s - 1\<close>, \<open>m = t % alignment\<close>, \<open>u = m + 1\<close>,
  \<open>r = s - u\<close>, and the conversion of \<open>r\<close> to the return type \<open>T1\<close>. The literal
  \<open>1\<close> is an \<open>int\<close>.
\<close>

definition ceil_aligned ::
  "data_model \<Rightarrow> int_type \<Rightarrow> int_type \<Rightarrow> int \<Rightarrow> int \<Rightarrow> int option" where
  "ceil_aligned dm T1 T2 value alignment =
     Option.bind (c_add dm (T1, value) (T2, alignment)) (\<lambda>s.
     Option.bind (c_sub dm s (SInt, 1)) (\<lambda>t.
     Option.bind (c_rem dm t (T2, alignment)) (\<lambda>m.
     Option.bind (c_add dm m (SInt, 1)) (\<lambda>u.
     Option.bind (c_sub dm s u) (\<lambda>r.
     Some (convert dm T1 (snd r)))))))"

text \<open>A value that is not negative and not above the greatest value of a type.\<close>

definition fits :: "data_model \<Rightarrow> int_type \<Rightarrow> int \<Rightarrow> bool" where
  "fits dm T x = (0 \<le> x \<and> x \<le> max_value dm T)"

section \<open>Properties of the timestamp\<close>

lemma unat_time_next:
  "unat (time (next_timestamp x)) = (unat (time x) + 1) mod 2 ^ 32"
  by (simp add: next_timestamp_def unat_word_ariths)

text \<open>
  Claim C4. For all timestamps \<open>x\<close> and \<open>y\<close>, each of the operators \<open>==\<close>, \<open>!=\<close>,
  \<open><\<close>, \<open>>\<close>, \<open><=\<close> and \<open>>=\<close> gives exactly the result of the same comparison of the
  numbers held in \<open>x.time\<close> and \<open>y.time\<close> (read as natural numbers by \<open>unat\<close>).
\<close>

theorem operators_agree_with_numeric_comparison:
  "op_eq x y = (unat (time x) = unat (time y)) \<and>
   op_ne x y = (unat (time x) \<noteq> unat (time y)) \<and>
   op_lt x y = (unat (time x) < unat (time y)) \<and>
   op_gt x y = (unat (time x) > unat (time y)) \<and>
   op_le x y = (unat (time x) \<le> unat (time y)) \<and>
   op_ge x y = (unat (time x) \<ge> unat (time y))"
  by (simp add: op_eq_def op_ne_def op_lt_def op_gt_def op_le_def op_ge_def
      word_less_nat_alt word_le_nat_alt word_unat_eq_iff)

text \<open>
  Claim C5. For every timestamp \<open>x\<close> whose counter is strictly below the largest 32-bit
  value (\<open>x.time < 2 ^ 32 - 1\<close>), the counter of \<open>next(x)\<close> is \<open>x.time + 1\<close>.
\<close>

theorem next_is_successor_below_limit:
  "unat (time x) < 2 ^ 32 - 1 \<Longrightarrow> unat (time (next_timestamp x)) = unat (time x) + 1"
  by (simp add: unat_time_next)

theorem next_is_successor_below_limit_witness:
  "unat (time \<lparr>time = 4294967294\<rparr>) < 2 ^ 32 - 1 \<and>
   unat (time (next_timestamp \<lparr>time = 4294967294\<rparr>)) = unat (time \<lparr>time = 4294967294\<rparr>) + 1 \<and>
   time (next_timestamp \<lparr>time = 4294967294\<rparr>) = 4294967295"
  using next_is_successor_below_limit [of "\<lparr>time = 4294967294\<rparr>"]
  by (simp add: next_timestamp_def)

text \<open>
  Claim C9. For every timestamp \<open>x\<close>, the counter of \<open>next(x)\<close> is
  \<open>(x.time + 1) mod 2 ^ 32\<close>; the successor of the largest value, \<open>2 ^ 32 - 1\<close>, has
  the counter 0: the addition wraps around, it neither saturates nor fails.
\<close>

theorem next_wraps_modulo_2_32:
  "unat (time (next_timestamp x)) = (unat (time x) + 1) mod 2 ^ 32 \<and>
   next_timestamp \<lparr>time = 4294967295\<rparr> = \<lparr>time = 0\<rparr> \<and>
   unat (4294967295 :: 32 word) = 2 ^ 32 - 1"
  by (simp add: unat_time_next) (simp add: next_timestamp_def)

section \<open>Properties of the merge of timestamps\<close>

text \<open>
  Claim C2. For all timestamps \<open>x\<close> and \<open>y\<close>, \<open>repli_max(x, y) == repli_max(y, x)\<close>,
  \<open>repli_max(x, y) >= x\<close> and \<open>repli_max(x, y) >= y\<close>, with the operators of the
  class. This holds for every pair of values, so for every pair of values other than
  \<open>invalid\<close>, whichever value that constant has.
\<close>

theorem repli_max_commutes_and_dominates:
  "op_eq (repli_max x y) (repli_max y x) \<and>
   op_ge (repli_max x y) x \<and>
   op_ge (repli_max x y) y"
  by (auto simp add: repli_max_def op_eq_def op_lt_def op_ge_def)

section \<open>Properties of the exception and of thread affinity\<close>

text \<open>
  Claim C8. An \<open>interrupted_exc_t\<close> carries no payload (any two instances are the same
  value), and \<open>what()\<close> returns the string "interrupted" for every instance.
\<close>

theorem what_is_fixed:
  "what e = ''interrupted'' \<and> what e = what e' \<and> e = e'"
  by (cases e; cases e') (simp add: what_def)

text \<open>
  Claim C6. In the diagnostics build \<open>assert_thread()\<close> ends the process when the
  current thread of the registry differs from \<open>home_thread()\<close>, and returns with the
  registry untouched (it does not switch or suspend) when they agree. In the \<open>NDEBUG\<close>
  build it returns with the registry untouched for every object and every thread.
\<close>

theorem assert_thread_checks_affinity:
  "(current_thread r \<noteq> home_thread obj \<longrightarrow>
      assert_thread Diagnostics obj r = Inl Affinity_violation) \<and>
   (current_thread r = home_thread obj \<longrightarrow> assert_thread Diagnostics obj r = Inr r) \<and>
   assert_thread NDEBUG obj r = Inr r"
  by (simp add: assert_thread_debug_def assert_thread_ndebug_def)

theorem assert_thread_checks_affinity_witness:
  "current_thread \<lparr>current_thread = 3, shutting_down = False\<rparr>
     \<noteq> home_thread \<lparr>real_home_thread = 2\<rparr> \<and>
   assert_thread Diagnostics \<lparr>real_home_thread = 2\<rparr>
     \<lparr>current_thread = 3, shutting_down = False\<rparr> = Inl Affinity_violation \<and>
   current_thread \<lparr>current_thread = 2, shutting_down = False\<rparr>
     = home_thread \<lparr>real_home_thread = 2\<rparr> \<and>
   assert_thread Diagnostics \<lparr>real_home_thread = 2\<rparr>
     \<lparr>current_thread = 2, shutting_down = False\<rparr>
     = Inr \<lparr>current_thread = 2, shutting_down = False\<rparr> \<and>
   assert_thread NDEBUG \<lparr>real_home_thread = 2\<rparr>
     \<lparr>current_thread = 3, shutting_down = False\<rparr>
     = Inr \<lparr>current_thread = 3, shutting_down = False\<rparr>"
  using
    assert_thread_checks_affinity
      [of "\<lparr>current_thread = 3, shutting_down = False\<rparr>" "\<lparr>real_home_thread = 2\<rparr>"]
    assert_thread_checks_affinity
      [of "\<lparr>current_thread = 2, shutting_down = False\<rparr>" "\<lparr>real_home_thread = 2\<rparr>"]
  by (simp add: home_thread_def)

text \<open>
  Claim C1. Whenever an \<open>on_thread_t\<close> for a target thread is constructed, the task
  is on the target thread afterwards, and destroying the guard then succeeds and leaves
  the task on the thread it was on before the construction. This covers the target
  equal to the current thread (no migration) and a different target (migration).
\<close>

theorem on_thread_t_round_trip:
  "on_thread_t_ctor thread r = Inr (guard, r1) \<Longrightarrow>
     current_thread r1 = thread \<and>
     (\<exists>r2. on_thread_t_dtor guard r1 = Inr r2 \<and> current_thread r2 = current_thread r)"
  by (auto simp add: on_thread_t_ctor_def on_thread_t_dtor_def request_switch_def
      home_thread_def Let_def split: if_splits)

theorem on_thread_t_round_trip_witness:
  "on_thread_t_ctor 2 \<lparr>current_thread = 1, shutting_down = False\<rparr>
     = Inr (\<lparr>real_home_thread = 1, target = 2\<rparr>, \<lparr>current_thread = 2, shutting_down = False\<rparr>) \<and>
   on_thread_t_dtor \<lparr>real_home_thread = 1, target = 2\<rparr>
     \<lparr>current_thread = 2, shutting_down = False\<rparr>
     = Inr \<lparr>current_thread = 1, shutting_down = False\<rparr> \<and>
   on_thread_t_ctor 1 \<lparr>current_thread = 1, shutting_down = False\<rparr>
     = Inr (\<lparr>real_home_thread = 1, target = 1\<rparr>, \<lparr>current_thread = 1, shutting_down = False\<rparr>) \<and>
   on_thread_t_dtor \<lparr>real_home_thread = 1, target = 1\<rparr>
     \<lparr>current_thread = 1, shutting_down = False\<rparr>
     = Inr \<lparr>current_thread = 1, shutting_down = False\<rparr>"
  using
    on_thread_t_round_trip
      [of 2 "\<lparr>current_thread = 1, shutting_down = False\<rparr>"
          "\<lparr>real_home_thread = 1, target = 2\<rparr>"
          "\<lparr>current_thread = 2, shutting_down = False\<rparr>"]
    on_thread_t_round_trip
      [of 1 "\<lparr>current_thread = 1, shutting_down = False\<rparr>"
          "\<lparr>real_home_thread = 1, target = 1\<rparr>"
          "\<lparr>current_thread = 1, shutting_down = False\<rparr>"]
  by (simp add: on_thread_t_ctor_def on_thread_t_dtor_def request_switch_def
      home_thread_def Let_def)

section \<open>Properties of the alignment arithmetic\<close>

lemma width_pos: "0 < width dm T"
  by (cases dm; cases T) simp_all

lemma fits_le: "fits dm T y \<Longrightarrow> 0 \<le> x \<Longrightarrow> x \<le> y \<Longrightarrow> fits dm T x"
  by (simp add: fits_def)

lemma fits_representable: "fits dm T x \<Longrightarrow> representable dm T x"
proof -
  assume f: "fits dm T x"
  have "min_value dm T \<le> 0" by (simp add: min_value_def)
  with f show ?thesis by (simp add: fits_def representable_def)
qed

lemma fits_less_power: 
  assumes "fits dm T x" shows "x < 2 ^ width dm T"
proof -
  have le: "(2::int) ^ (width dm T - 1) \<le> 2 ^ width dm T"
    by (rule power_increasing) simp_all
  show ?thesis
  proof (cases "is_signed T")
    case True
    with assms have "x < 2 ^ (width dm T - 1)"
      by (simp add: fits_def max_value_def)
    with le show ?thesis by linarith
  next
    case False
    with assms show ?thesis
      by (simp add: fits_def max_value_def)
  qed
qed

lemma arith_result_fits: "fits dm T x \<Longrightarrow> arith_result dm T x = Some x"
  using fits_less_power [of dm T x]
  by (simp add: arith_result_def fits_representable) (simp add: fits_def)

lemma convert_fits:
  assumes "fits dm T x" shows "convert dm T x = x"
proof (cases "is_signed T")
  case False
  with assms fits_less_power [of dm T x] show ?thesis
    by (simp add: convert_def fits_def)
next
  case True
  let ?h = "(2::int) ^ (width dm T - 1)"
  have "(2::int) ^ width dm T = 2 ^ Suc (width dm T - 1)"
    using width_pos [of dm T] by simp
  then have p: "(2::int) ^ width dm T = 2 * ?h" by simp
  have "0 \<le> x" "x < ?h"
    using assms True by (simp_all add: fits_def max_value_def)
  then have "(x + ?h) mod (2 * ?h) = x + ?h"
    by simp
  with True p show ?thesis
    by (simp add: convert_def)
qed

lemma max_value_arith_type_left: "max_value dm A \<le> max_value dm (arith_type dm A B)"
  by (cases dm; cases A; cases B)
    (simp_all add: arith_type_def common_type_def promote_def max_value_def min_value_def)

lemma max_value_arith_type_right: "max_value dm B \<le> max_value dm (arith_type dm A B)"
  by (cases dm; cases A; cases B)
    (simp_all add: arith_type_def common_type_def promote_def max_value_def min_value_def)

lemma fits_arith_type_left: "fits dm A x \<Longrightarrow> fits dm (arith_type dm A B) x"
  using max_value_arith_type_left [of dm A B] by (simp add: fits_def)

lemma fits_arith_type_right: "fits dm B x \<Longrightarrow> fits dm (arith_type dm A B) x"
  using max_value_arith_type_right [of dm B A] by (simp add: fits_def)

lemma c_add_exact:
  assumes "fits dm A a" and "fits dm B b" and "fits dm (arith_type dm A B) (a + b)"
  shows "c_add dm (A, a) (B, b) = Some (arith_type dm A B, a + b)"
  using assms
  by (simp add: Let_def convert_fits fits_arith_type_left fits_arith_type_right
      arith_result_fits)

lemma c_sub_exact:
  assumes "fits dm A a" and "fits dm B b" and "b \<le> a"
  shows "c_sub dm (A, a) (B, b) = Some (arith_type dm A B, a - b)"
proof -
  have "fits dm (arith_type dm A B) (a - b)"
    using assms fits_le [OF fits_arith_type_left [OF assms(1)], of "a - b" B]
    by (simp add: fits_def)
  with assms show ?thesis
    by (simp add: Let_def convert_fits fits_arith_type_left fits_arith_type_right
        arith_result_fits)
qed

lemma smod_nonneg:
  fixes a b :: int
  assumes "0 \<le> a" and "0 < b"
  shows "a smod b = a mod b"
proof (cases "a = 0")
  case True
  then show ?thesis by (simp add: signed_modulo_int_def)
next
  case False
  with assms have "0 < a" by simp
  with assms show ?thesis by (simp add: signed_modulo_int_def)
qed

lemma c_rem_exact:
  assumes "fits dm A a" and "fits dm B b" and "0 < b"
  shows "c_rem dm (A, a) (B, b) = Some (arith_type dm A B, a mod b)"
proof -
  have "0 \<le> a" using assms(1) by (simp add: fits_def)
  then have "a smod b = a mod b"
    using assms(3) by (rule smod_nonneg)
  with assms show ?thesis
    by (simp add: Let_def convert_fits fits_arith_type_left fits_arith_type_right)
qed

lemma fits_one: "fits dm SInt 1"
  by (simp add: fits_def max_value_def)

lemma ceil_aligned_eq:
  assumes v: "0 \<le> v" and a: "0 < a" and fa: "a \<le> max_value dm T2"
    and fs: "v + a \<le> max_value dm T1"
  shows "ceil_aligned dm T1 T2 v a = Some (v + a - ((v + a - 1) mod a + 1))"
proof -
  let ?s = "v + a"
  let ?m = "(?s - 1) mod a"
  let ?C1 = "arith_type dm T1 T2"
  let ?C2 = "arith_type dm ?C1 SInt"
  let ?C3 = "arith_type dm ?C2 T2"
  let ?C4 = "arith_type dm ?C3 SInt"
  let ?C5 = "arith_type dm ?C1 ?C4"
  have mb: "0 \<le> ?m" "?m < a"
    using a by simp_all
  have f1: "fits dm T1 ?s"
    using v a fs by (simp add: fits_def)
  have fv: "fits dm T1 v"
    using v a by (intro fits_le [OF f1]) simp_all
  have fal: "fits dm T2 a"
    using a fa by (simp add: fits_def)
  have s1: "fits dm ?C1 ?s"
    using f1 by (rule fits_arith_type_left)
  have s: "c_add dm (T1, v) (T2, a) = Some (?C1, ?s)"
    using fv fal s1 by (rule c_add_exact)
  have t: "c_sub dm (?C1, ?s) (SInt, 1) = Some (?C2, ?s - 1)"
    using s1 fits_one v a by (intro c_sub_exact) simp_all
  have t2: "fits dm ?C2 (?s - 1)"
    using v a by (intro fits_le [OF fits_arith_type_left [OF s1]]) simp_all
  have m: "c_rem dm (?C2, ?s - 1) (T2, a) = Some (?C3, ?m)"
    using t2 fal a by (rule c_rem_exact)
  have m3: "fits dm ?C3 ?m"
    using mb by (intro fits_le [OF fits_arith_type_right [OF fal]]) simp_all
  have u4: "fits dm ?C4 (?m + 1)"
    using mb by (intro fits_le [OF fits_arith_type_left [OF fits_arith_type_right [OF fal]]]) simp_all
  have u: "c_add dm (?C3, ?m) (SInt, 1) = Some (?C4, ?m + 1)"
    using m3 fits_one u4 by (rule c_add_exact)
  have r: "c_sub dm (?C1, ?s) (?C4, ?m + 1) = Some (?C5, ?s - (?m + 1))"
    using s1 u4 mb v by (intro c_sub_exact) simp_all
  have c: "convert dm T1 (?s - (?m + 1)) = ?s - (?m + 1)"
    using v mb by (intro convert_fits fits_le [OF f1]) simp_all
  show ?thesis
    by (simp add: ceil_aligned_def s t m u r c del: c_add.simps c_sub.simps c_rem.simps)
qed

lemma round_up_multiple:
  fixes v a :: int
  assumes "0 < a"
  shows "v + a - ((v + a - 1) mod a + 1) = a * ((v + a - 1) div a)"
proof -
  have "v + a - 1 = a * ((v + a - 1) div a) + (v + a - 1) mod a"
    by simp
  then show ?thesis by linarith
qed

lemma round_up_least:
  fixes v a m :: int
  assumes "0 < a" "a dvd m" "v \<le> m"
  shows "a * ((v + a - 1) div a) \<le> m"
proof -
  from assms(2) obtain k where k: "m = a * k" by (auto simp add: dvd_def)
  let ?q = "(v + a - 1) div a"
  have "a * ?q = v + a - 1 - (v + a - 1) mod a"
    by (simp add: minus_mod_eq_mult_div)
  moreover have "0 \<le> (v + a - 1) mod a"
    using assms(1) by simp
  ultimately have "a * ?q \<le> v + a - 1"
    by linarith
  also have "\<dots> < a * (k + 1)"
    using assms k by (simp add: algebra_simps)
  finally have "?q < k + 1"
    using assms(1) by (simp only: mult_less_cancel_left_pos)
  then have "?q \<le> k" by simp
  then show ?thesis using assms(1) k by simp
qed

lemma round_up_ge:
  fixes v a :: int
  assumes "0 < a"
  shows "v \<le> v + a - ((v + a - 1) mod a + 1)"
proof -
  have "(v + a - 1) mod a < a" using assms by simp
  then show ?thesis by linarith
qed

text \<open>
  Outside the hypotheses of the claim below the result can be wrong: when the sum
  overflows only \<open>T1\<close> and not the type of the arithmetic, the least multiple is computed
  and then lost in the conversion to \<open>T1\<close>.
\<close>

lemma ceil_aligned_result_narrowed:
  "ceil_aligned LP64 UInt ULong 4294967295 8 = Some 0"
  "ceil_aligned LP64 SInt SLong 2147483647 8 = Some (- 2147483648)"
  by (simp_all add: ceil_aligned_def arith_type_def common_type_def promote_def
      arith_result_def convert_def representable_def min_value_def max_value_def
      signed_modulo_int_def)

text \<open>
  Claim C10. For every value \<open>0 \<le> value\<close> of an integer type \<open>T1\<close> and every
  alignment \<open>0 < alignment\<close> of an integer type \<open>T2\<close> such that \<open>value + alignment\<close>
  does not overflow \<open>T1\<close>, the type of \<open>value\<close> and of the result, \<open>ceil_aligned\<close> is
  defined and returns the least multiple of \<open>alignment\<close> that is at least \<open>value\<close>; it
  returns \<open>value\<close> when \<open>value\<close> is a multiple of \<open>alignment\<close>. This holds in both
  data models and for every pair of types, \<open>T1\<close> and \<open>T2\<close> the same or not.
\<close>

theorem ceil_aligned_least_multiple:
  assumes "0 \<le> value" and "0 < alignment" and "alignment \<le> max_value dm T2"
    and "value + alignment \<le> max_value dm T1"
  shows "\<exists>r. ceil_aligned dm T1 T2 value alignment = Some r \<and>
           alignment dvd r \<and> value \<le> r \<and>
           (\<forall>m. alignment dvd m \<and> value \<le> m \<longrightarrow> r \<le> m) \<and>
           (alignment dvd value \<longrightarrow> r = value)"
proof -
  let ?r = "value + alignment - ((value + alignment - 1) mod alignment + 1)"
  have result: "ceil_aligned dm T1 T2 value alignment = Some ?r"
    using assms by (rule ceil_aligned_eq)
  have multiple: "?r = alignment * ((value + alignment - 1) div alignment)"
    using assms(2) by (rule round_up_multiple)
  then have dvd: "alignment dvd ?r"
    by simp
  have ge: "value \<le> ?r"
    using assms(2) by (rule round_up_ge)
  have least: "?r \<le> m" if "alignment dvd m \<and> value \<le> m" for m
    using that assms(2) multiple round_up_least [of alignment m "value"] by simp
  have fixed: "?r = value" if "alignment dvd value"
    using that ge least [of "value"] by simp
  show ?thesis
    using result dvd ge least fixed by blast
qed

theorem ceil_aligned_least_multiple_witness:
  "(0::int) \<le> 13 \<and> (0::int) < 8 \<and> 8 \<le> max_value LP64 ULong \<and>
   13 + 8 \<le> max_value LP64 ULong \<and>
   ceil_aligned LP64 ULong ULong 13 8 = Some 16 \<and>
   \<not> (8::int) dvd 13 \<and> \<not> (8::int) dvd 14 \<and> \<not> (8::int) dvd 15 \<and> (8::int) dvd 16 \<and>
   (0::int) \<le> 4096 \<and> (0::int) < 512 \<and> 512 \<le> max_value ILP32 SInt \<and>
   4096 + 512 \<le> max_value ILP32 SInt \<and>
   ceil_aligned ILP32 SInt SInt 4096 512 = Some 4096 \<and>
   (0::int) \<le> 4294967281 \<and> (0::int) < 8 \<and> 8 \<le> max_value LP64 ULong \<and>
   4294967281 + 8 \<le> max_value LP64 UInt \<and>
   ceil_aligned LP64 UInt ULong 4294967281 8 = Some 4294967288 \<and>
   (0::int) \<le> 241 \<and> (0::int) < 7 \<and> 7 \<le> max_value LP64 UChar \<and>
   241 + 7 \<le> max_value LP64 UChar \<and>
   ceil_aligned LP64 UChar UChar 241 7 = Some 245"
proof -
  note defs = ceil_aligned_def arith_type_def common_type_def promote_def
    arith_result_def convert_def representable_def min_value_def max_value_def
    signed_modulo_int_def
  have h1: "(0::int) \<le> 13" "(0::int) < 8" "8 \<le> max_value LP64 ULong"
      "13 + 8 \<le> max_value LP64 ULong"
    by (simp_all add: max_value_def)
  have h2: "(0::int) \<le> 4096" "(0::int) < 512" "512 \<le> max_value ILP32 SInt"
      "4096 + 512 \<le> max_value ILP32 SInt"
    by (simp_all add: max_value_def)
  have h3: "(0::int) \<le> 4294967281" "(0::int) < 8" "8 \<le> max_value LP64 ULong"
      "4294967281 + 8 \<le> max_value LP64 UInt"
    by (simp_all add: max_value_def)
  have h4: "(0::int) \<le> 241" "(0::int) < 7" "7 \<le> max_value LP64 UChar"
      "241 + 7 \<le> max_value LP64 UChar"
    by (simp_all add: max_value_def)
  have e1: "ceil_aligned LP64 ULong ULong 13 8 = Some 16"
    by (simp add: defs)
  have e2: "ceil_aligned ILP32 SInt SInt 4096 512 = Some 4096"
    by (simp add: defs)
  have e3: "ceil_aligned LP64 UInt ULong 4294967281 8 = Some 4294967288"
    by (simp add: defs)
  have e4: "ceil_aligned LP64 UChar UChar 241 7 = Some 245"
    by (simp add: defs)
  show ?thesis
    using ceil_aligned_least_multiple [OF h1] ceil_aligned_least_multiple [OF h2]
      ceil_aligned_least_multiple [OF h3] ceil_aligned_least_multiple [OF h4]
      h1 h2 h3 h4 e1 e2 e3 e4
    by simp
qed

end
